theory Spec2Isabelle
  imports Main
begin

section \<open>Python strings\<close>

text \<open>
  Strings of the program are character lists. The functions below are the methods of
  Python's \<^verbatim>\<open>str\<close> that \<^verbatim>\<open>manim/cli/init/commands.py\<close> calls:
  \<^verbatim>\<open>startswith\<close>, \<^verbatim>\<open>find\<close>, \<^verbatim>\<open>rfind\<close> and
  \<^verbatim>\<open>replace\<close> with a count of one. An index that Python reports as -1 is
  \<open>None\<close> here.
\<close>

fun startswith :: "string \<Rightarrow> string \<Rightarrow> bool" where
  "startswith s [] = True"
| "startswith [] (p # ps) = False"
| "startswith (c # cs) (p # ps) = (c = p \<and> startswith cs ps)"

fun str_find :: "string \<Rightarrow> string \<Rightarrow> nat option" where
  "str_find [] sub = (if sub = [] then Some 0 else None)"
| "str_find (c # cs) sub =
     (if startswith (c # cs) sub then Some 0 else map_option Suc (str_find cs sub))"

text \<open>\<^verbatim>\<open>s.replace(old, new, 1)\<close>: the leftmost occurrence of \<open>old\<close> is replaced.\<close>

definition str_replace1 :: "string \<Rightarrow> string \<Rightarrow> string \<Rightarrow> string" where
  "str_replace1 s old new =
     (case str_find s old of
        None \<Rightarrow> s
      | Some i \<Rightarrow> take i s @ new @ drop (i + length old) s)"

text \<open>\<^verbatim>\<open>s.rfind(c)\<close> for a single character: the highest index holding \<open>c\<close>.\<close>

fun str_rfind :: "string \<Rightarrow> char \<Rightarrow> nat option" where
  "str_rfind [] c = None"
| "str_rfind (x # xs) c =
     (case str_rfind xs c of
        Some i \<Rightarrow> Some (Suc i)
      | None \<Rightarrow> if x = c then Some 0 else None)"

section \<open>Scene stubs\<close>

text \<open>
  Line 166 of the source:
  \<^verbatim>\<open>scene = scene.replace(template_name + "Template", kwargs["scene_name"], 1)\<close>.
\<close>

definition render :: "string \<Rightarrow> string \<Rightarrow> string \<Rightarrow> string" where
  "render stub template_name scene_name =
     str_replace1 stub (template_name @ ''Template'') scene_name"

section \<open>Python values and errors\<close>

text \<open>
  The exceptions that the commands and the library calls they make can raise. \<open>Abort\<close>
  is \<^verbatim>\<open>click.Abort\<close>; \<open>KeyError\<close> carries the missing key.
\<close>

datatype error =
    KeyError string
  | IndexError
  | TypeError
  | ValueError
  | FileNotFoundError
  | FileExistsError
  | IsADirectoryError
  | NotADirectoryError
  | ParsingError
  | Abort

text \<open>
  The values that occur in a configuration dictionary: integers and strings (what
  \<^verbatim>\<open>click.prompt\<close> returns for an integer or a string default) and pairs of integers
  (\<^verbatim>\<open>tuple[int, int]\<close>, the resolution).
\<close>

datatype pyval = VInt int | VStr string | VPair int int

fun digits :: "nat \<Rightarrow> string" where
  "digits n =
     (if n < 10 then [''0123456789'' ! n]
      else digits (n div 10) @ [''0123456789'' ! (n mod 10)])"

declare digits.simps [simp del]

definition str_int :: "int \<Rightarrow> string" where
  "str_int i = (if i < 0 then ''-'' @ digits (nat (- i)) else digits (nat i))"

text \<open>\<^verbatim>\<open>str(value)\<close>.\<close>

fun py_str :: "pyval \<Rightarrow> string" where
  "py_str (VInt i) = str_int i"
| "py_str (VStr s) = s"
| "py_str (VPair a b) = ''('' @ str_int a @ '', '' @ str_int b @ '')''"

text \<open>\<^verbatim>\<open>value[i]\<close> for a non-negative index \<open>i\<close>.\<close>

fun py_getitem :: "pyval \<Rightarrow> nat \<Rightarrow> error + pyval" where
  "py_getitem (VInt n) i = Inl TypeError"
| "py_getitem (VStr s) i = (if i < length s then Inr (VStr [s ! i]) else Inl IndexError)"
| "py_getitem (VPair a b) i =
     (if i = 0 then Inr (VInt a) else if i = 1 then Inr (VInt b) else Inl IndexError)"

section \<open>Paths and the file system\<close>

text \<open>
  A \<^verbatim>\<open>pathlib.Path\<close> is the list of its components, relative to the working
  directory, which is the empty path and always a directory. A file system maps a path to
  a directory or to a file with its content. The content type is a parameter: the scene
  command sees the text of a file, the project command sees what
  \<^verbatim>\<open>configparser\<close> reads from it.
\<close>

type_synonym path = "string list"

datatype 'c node = Dir | File 'c

type_synonym 'c fs = "path \<Rightarrow> 'c node option"

definition lookup :: "'c fs \<Rightarrow> path \<Rightarrow> 'c node option" where
  "lookup fs p = (if p = [] then Some Dir else fs p)"

definition is_dir :: "'c fs \<Rightarrow> path \<Rightarrow> bool" where
  "is_dir fs p = (case lookup fs p of Some Dir \<Rightarrow> True | _ \<Rightarrow> False)"

definition is_file :: "'c fs \<Rightarrow> path \<Rightarrow> bool" where
  "is_file fs p = (case lookup fs p of Some (File c) \<Rightarrow> True | _ \<Rightarrow> False)"

text \<open>
  Creating an entry needs the parent directory: a missing parent is
  \<^verbatim>\<open>FileNotFoundError\<close>, a parent that is a file is \<^verbatim>\<open>NotADirectoryError\<close>.
\<close>

definition check_parent :: "'c fs \<Rightarrow> path \<Rightarrow> error option" where
  "check_parent fs p =
     (case lookup fs (butlast p) of
        None \<Rightarrow> Some FileNotFoundError
      | Some (File c) \<Rightarrow> Some NotADirectoryError
      | Some Dir \<Rightarrow> None)"

text \<open>\<^verbatim>\<open>Path.mkdir()\<close> with its default arguments.\<close>

definition mkdir :: "'c fs \<Rightarrow> path \<Rightarrow> error + 'c fs" where
  "mkdir fs p =
     (case lookup fs p of
        Some n \<Rightarrow> Inl FileExistsError
      | None \<Rightarrow>
          (case check_parent fs p of
             Some e \<Rightarrow> Inl e
           | None \<Rightarrow> Inr (fs(p \<mapsto> Dir))))"

text \<open>
  Opening a path in mode \<^verbatim>\<open>"w"\<close> or \<^verbatim>\<open>"a"\<close>: a directory cannot be opened,
  an absent file is created in its parent directory. The result is the content found
  (\<open>None\<close> for a file just created).
\<close>

definition open_for_writing :: "'c fs \<Rightarrow> path \<Rightarrow> error + 'c option" where
  "open_for_writing fs p =
     (case lookup fs p of
        Some Dir \<Rightarrow> Inl IsADirectoryError
      | Some (File c) \<Rightarrow> Inr (Some c)
      | None \<Rightarrow>
          (case check_parent fs p of
             Some e \<Rightarrow> Inl e
           | None \<Rightarrow> Inr None))"

text \<open>Mode \<^verbatim>\<open>"w"\<close> (also \<^verbatim>\<open>Path.write_text\<close>): the content is replaced.\<close>

definition write_file :: "'c fs \<Rightarrow> path \<Rightarrow> 'c \<Rightarrow> error + 'c fs" where
  "write_file fs p c =
     (case open_for_writing fs p of
        Inl e \<Rightarrow> Inl e
      | Inr old \<Rightarrow> Inr (fs(p \<mapsto> File c)))"

text \<open>Mode \<^verbatim>\<open>"a"\<close> followed by one \<^verbatim>\<open>write\<close>: the text goes to the end.\<close>

definition append_text :: "string fs \<Rightarrow> path \<Rightarrow> string \<Rightarrow> error + string fs" where
  "append_text fs p s =
     (case open_for_writing fs p of
        Inl e \<Rightarrow> Inl e
      | Inr old \<Rightarrow> Inr (fs(p \<mapsto> File ((case old of None \<Rightarrow> [] | Some c \<Rightarrow> c) @ s))))"

text \<open>\<^verbatim>\<open>PurePath.name\<close>, \<^verbatim>\<open>PurePath.suffix\<close> and \<^verbatim>\<open>PurePath.with_suffix\<close>.\<close>

definition path_name :: "path \<Rightarrow> string" where
  "path_name p = (if p = [] then [] else last p)"

definition path_suffix :: "path \<Rightarrow> string" where
  "path_suffix p =
     (let name = path_name p in
      case str_rfind name (CHR ''.'') of
        None \<Rightarrow> []
      | Some i \<Rightarrow> if 0 < i \<and> i < length name - 1 then drop i name else [])"

definition with_suffix :: "path \<Rightarrow> string \<Rightarrow> error + path" where
  "with_suffix p suffix =
     (if CHR ''/'' \<in> set suffix then Inl ValueError
      else if (suffix \<noteq> [] \<and> \<not> startswith suffix ''.'') \<or> suffix = ''.'' then Inl ValueError
      else
        let name = path_name p in
        if name = [] then Inl ValueError
        else
          let old_suffix = path_suffix p in
          Inr (butlast p @
                 [if old_suffix = [] then name @ suffix
                  else take (length name - length old_suffix) name @ suffix]))"

section \<open>The world of a command\<close>

text \<open>
  A command runs on a file system and leaves a trace: what it printed with
  \<^verbatim>\<open>console.print\<close> and which collaborators of \<^verbatim>\<open>manim.utils.file_ops\<close>
  it invoked, in order. A command ends normally (\<open>Done\<close>) or with an exception
  (\<open>Raised\<close>); both carry the world the command leaves behind.
\<close>

datatype event =
    ConsolePrint string
  | ConsolePrintCfg "(string \<times> pyval) list"
  | CopyTemplateFiles path string
  | AddImportStatement path

record 'c world =
  files :: "'c fs"
  trace :: "event list"

datatype 'c outcome = Done "'c world" | Raised error "'c world"

fun world_of :: "'c outcome \<Rightarrow> 'c world" where
  "world_of (Done w) = w"
| "world_of (Raised e w) = w"

fun raised :: "'c outcome \<Rightarrow> error option" where
  "raised (Done w) = None"
| "raised (Raised e w) = Some e"

text \<open>
  A collaborator is code of \<^verbatim>\<open>manim.utils.file_ops\<close>: it is a parameter of the model,
  a function on the file system that may raise. Invoking it is recorded in the trace.
\<close>

type_synonym 'c collaborator = "'c fs \<Rightarrow> error option \<times> 'c fs"

definition invoke :: "event \<Rightarrow> 'c collaborator \<Rightarrow> 'c world \<Rightarrow> 'c outcome" where
  "invoke ev f w =
     (let (r, fs') = f (files w);
          w' = w\<lparr>files := fs', trace := trace w @ [ev]\<rparr>
      in case r of None \<Rightarrow> Done w' | Some e \<Rightarrow> Raised e w')"

section \<open>The scene command\<close>

text \<open>
  The environment of \<^verbatim>\<open>scene\<close>: the template store (the text of
  \<^verbatim>\<open>get_template_path() / f"{template_name}.mtp"\<close>, if that file can be read) and the
  import-injection collaborator \<^verbatim>\<open>add_import_statement\<close>.
\<close>

record scene_env =
  templates :: "string \<Rightarrow> string option"
  add_import_statement :: "path \<Rightarrow> string collaborator"

definition separator :: string where
  "separator = [CHR 0x0A, CHR 0x0A, CHR 0x0A]"

text \<open>
  Lines 171 and 172:
  \<^verbatim>\<open>if file_name.suffix != ".py": file_name = file_name.with_suffix(file_name.suffix + ".py")\<close>.
\<close>

definition target_path :: "path \<Rightarrow> error + path" where
  "target_path file_name =
     (if path_suffix file_name \<noteq> ''.py''
      then with_suffix file_name (path_suffix file_name @ ''.py'')
      else Inr file_name)"

text \<open>Lines 174 to 182: the scene goes to the end of a file, or into a new file.\<close>

definition scene_insert :: "scene_env \<Rightarrow> path \<Rightarrow> string \<Rightarrow> string world \<Rightarrow> string outcome" where
  "scene_insert env file_name scene_text w =
     (if is_file (files w) file_name then
        (case append_text (files w) file_name (separator @ scene_text) of
           Inl e \<Rightarrow> Raised e w
         | Inr fs' \<Rightarrow> Done (w\<lparr>files := fs'\<rparr>))
      else
        (case write_file (files w) file_name (separator @ scene_text) of
           Inl e \<Rightarrow> Raised e w
         | Inr fs' \<Rightarrow>
             invoke (AddImportStatement file_name) (add_import_statement env file_name)
               (w\<lparr>files := fs'\<rparr>)))"

text \<open>
  The command. \<open>scene_name\<close> and \<open>file_name\<close> are the two arguments; \<open>file_name\<close> is
  \<open>None\<close> when the argument is absent or the empty string (both are false in Python) and
  the parsed path otherwise. \<open>template_name\<close> is the answer to the template prompt.
\<close>

definition scene ::
  "scene_env \<Rightarrow> string \<Rightarrow> path option \<Rightarrow> string \<Rightarrow> string world \<Rightarrow> string outcome" where
  "scene env scene_name file_name template_name w =
     (case templates env template_name of
        None \<Rightarrow> Raised FileNotFoundError w
      | Some stub \<Rightarrow>
          let scene_text = render stub template_name scene_name in
          (case file_name of
             Some fname \<Rightarrow>
               (case target_path fname of
                  Inl e \<Rightarrow> Raised e w
                | Inr target \<Rightarrow> scene_insert env target scene_text w)
           | None \<Rightarrow>
               (case append_text (files w) [''main.py''] (separator @ scene_text) of
                  Inl e \<Rightarrow> Raised e w
                | Inr fs' \<Rightarrow> Done (w\<lparr>files := fs'\<rparr>))))"

section \<open>The configuration store\<close>

text \<open>
  What \<^verbatim>\<open>configparser.ConfigParser\<close> holds after reading a file: named sections,
  each mapping option names to string values. A file whose text the parser rejects is
  \<open>Malformed\<close>. The parser stores every option under \<^verbatim>\<open>optionxform\<close> of its name,
  which is \<^verbatim>\<open>str.lower\<close>.
\<close>

type_synonym cfg_section = "string \<Rightarrow> string option"

type_synonym store = "string \<Rightarrow> cfg_section option"

datatype cfgfile = Parsed store | Malformed

definition lower_char :: "char \<Rightarrow> char" where
  "lower_char c =
     (case map_of (zip ''ABCDEFGHIJKLMNOPQRSTUVWXYZ'' ''abcdefghijklmnopqrstuvwxyz'') c of
        Some d \<Rightarrow> d
      | None \<Rightarrow> c)"

definition optionxform :: "string \<Rightarrow> string" where
  "optionxform optionstr = map lower_char optionstr"

text \<open>\<^verbatim>\<open>section[key] = value\<close> on a section of the parser.\<close>

definition setitem :: "cfg_section \<Rightarrow> string \<Rightarrow> string \<Rightarrow> cfg_section" where
  "setitem sec key v = sec(optionxform key \<mapsto> v)"

text \<open>
  \<^verbatim>\<open>config.read(path)\<close>: a path that cannot be opened (absent, or a directory) is
  skipped and leaves the parser empty.
\<close>

definition read_config :: "cfgfile fs \<Rightarrow> path \<Rightarrow> error + store" where
  "read_config fs p =
     (case lookup fs p of
        Some (File (Parsed st)) \<Rightarrow> Inr st
      | Some (File Malformed) \<Rightarrow> Inl ParsingError
      | Some Dir \<Rightarrow> Inr Map.empty
      | None \<Rightarrow> Inr Map.empty)"

section \<open>update\_cfg\<close>

text \<open>
  The dictionary \<open>cfg_dict\<close> is the list of its items in iteration order. The loop of
  lines 77 to 82 works on the section in memory; an exception inside it leaves the file
  untouched, since the file is written after the loop.
\<close>

fun cfg_loop :: "(string \<times> pyval) list \<Rightarrow> cfg_section \<Rightarrow> error + cfg_section" where
  "cfg_loop [] cli_config = Inr cli_config"
| "cfg_loop ((key, v) # items) cli_config =
     (if key = ''resolution'' then
        (case py_getitem v 0 of
           Inl e \<Rightarrow> Inl e
         | Inr v0 \<Rightarrow>
             (case py_getitem v 1 of
                Inl e \<Rightarrow> Inl e
              | Inr v1 \<Rightarrow>
                  cfg_loop items
                    (setitem (setitem cli_config ''pixel_width'' (py_str v0))
                       ''pixel_height'' (py_str v1))))
      else cfg_loop items (setitem cli_config key (py_str v)))"

definition update_cfg :: "(string \<times> pyval) list \<Rightarrow> path \<Rightarrow> cfgfile world \<Rightarrow> cfgfile outcome" where
  "update_cfg cfg_dict project_cfg_path w =
     (case read_config (files w) project_cfg_path of
        Inl e \<Rightarrow> Raised e w
      | Inr config \<Rightarrow>
          (case config ''CLI'' of
             None \<Rightarrow> Raised (KeyError ''CLI'') w
           | Some cli_config \<Rightarrow>
               (case cfg_loop cfg_dict cli_config of
                  Inl e \<Rightarrow> Raised e w
                | Inr cli_config' \<Rightarrow>
                    (case write_file (files w) project_cfg_path
                            (Parsed (config(''CLI'' \<mapsto> cli_config'))) of
                       Inl e \<Rightarrow> Raised e w
                     | Inr fs' \<Rightarrow> Done (w\<lparr>files := fs'\<rparr>)))))"

section \<open>select\_resolution\<close>

text \<open>
  \<^verbatim>\<open>QUALITIES\<close> of \<^verbatim>\<open>manim.constants\<close> is a parameter: the list of its items, of
  which the function reads the two pixel fields. \<open>choice\<close> is the answer that
  \<^verbatim>\<open>click.prompt\<close> returns.
\<close>

record quality =
  pixel_height :: int
  pixel_width :: int

definition select_resolution :: "(string \<times> quality) list \<Rightarrow> string \<Rightarrow> error + int \<times> int" where
  "select_resolution QUALITIES choice =
     (let all_options = map (\<lambda>q. (pixel_height (snd q), pixel_width (snd q))) QUALITIES in
      if all_options = [] then Inl IndexError
      else
        let resolution_options = butlast all_options;
            matches = filter (\<lambda>res. str_int (fst res) @ ''p'' = choice) resolution_options
        in case matches of [] \<Rightarrow> Inl IndexError | m # ms \<Rightarrow> Inr m)"

section \<open>The project command\<close>

definition CFG_DEFAULTS :: "(string \<times> pyval) list" where
  "CFG_DEFAULTS =
     [(''frame_rate'', VInt 30),
      (''background_color'', VStr ''BLACK''),
      (''background_opacity'', VInt 1),
      (''scene_names'', VStr ''Default''),
      (''resolution'', VPair 854 480)]"

text \<open>
  The environment of \<^verbatim>\<open>project\<close>: the quality table and the template-copy
  collaborator \<^verbatim>\<open>copy_template_files\<close>. The answers of the user: to the project-name
  prompt, to the template prompt, to the resolution prompt, to the prompt for a
  configuration key with its default, and to the confirmation.
\<close>

record project_env =
  qualities :: "(string \<times> quality) list"
  copy_template_files :: "path \<Rightarrow> string \<Rightarrow> cfgfile collaborator"

record answers =
  project_name_answer :: path
  template_answer :: string
  resolution_answer :: string
  value_answer :: "string \<Rightarrow> pyval \<Rightarrow> pyval"
  confirm_answer :: bool

text \<open>Lines 129 to 135: the configuration built from the answers, key by key.\<close>

fun build_cfg ::
  "project_env \<Rightarrow> answers \<Rightarrow> string \<Rightarrow> (string \<times> pyval) list \<Rightarrow> (string \<times> pyval) list
     \<Rightarrow> error + (string \<times> pyval) list" where
  "build_cfg env a template_name [] new_cfg = Inr new_cfg"
| "build_cfg env a template_name ((key, v) # items) new_cfg =
     (if key = ''scene_names'' then
        build_cfg env a template_name items
          (new_cfg @ [(key, VStr (template_name @ ''Template''))])
      else if key = ''resolution'' then
        (case select_resolution (qualities env) (resolution_answer a) of
           Inl e \<Rightarrow> Inl e
         | Inr res \<Rightarrow>
             build_cfg env a template_name items (new_cfg @ [(key, VPair (fst res) (snd res))]))
      else build_cfg env a template_name items (new_cfg @ [(key, value_answer a key v)]))"

definition path_str :: "path \<Rightarrow> string" where
  "path_str p = (if p = [] then ''.'' else foldr (\<lambda>c s. if s = [] then c else c @ ''/'' @ s) p [])"

definition folder_exists_message :: "path \<Rightarrow> string" where
  "folder_exists_message project_name =
     [CHR 0x0A] @ ''Folder [red]'' @ path_str project_name @
     ''[/red] exists. Please type another name'' @ [CHR 0x0A]"

text \<open>Lines 139 and 140, and again 142 and 143: copy the template, then write the configuration.\<close>

definition copy_and_update ::
  "project_env \<Rightarrow> path \<Rightarrow> string \<Rightarrow> (string \<times> pyval) list \<Rightarrow> path \<Rightarrow> cfgfile world
     \<Rightarrow> cfgfile outcome" where
  "copy_and_update env project_name template_name cfg new_cfg_path w =
     (case invoke (CopyTemplateFiles project_name template_name)
             (copy_template_files env project_name template_name) w of
        Raised e w' \<Rightarrow> Raised e w'
      | Done w' \<Rightarrow> update_cfg cfg new_cfg_path w')"

text \<open>
  The command. \<open>default_settings\<close> is the flag, \<open>project_name_arg\<close> the optional argument
  (a path is always true in Python, so only an absent argument is prompted for).
  \<^verbatim>\<open>Path.resolve\<close> is the identity on the paths of this model.
\<close>

definition project ::
  "project_env \<Rightarrow> answers \<Rightarrow> bool \<Rightarrow> path option \<Rightarrow> cfgfile world \<Rightarrow> cfgfile outcome" where
  "project env a default_settings project_name_arg w =
     (let project_name =
            (case project_name_arg of Some p \<Rightarrow> p | None \<Rightarrow> project_name_answer a);
          template_name = template_answer a
      in
      if is_dir (files w) project_name then
        Done (w\<lparr>trace := trace w @ [ConsolePrint (folder_exists_message project_name)]\<rparr>)
      else
        (case mkdir (files w) project_name of
           Inl e \<Rightarrow> Raised e w
         | Inr fs1 \<Rightarrow>
             let w1 = w\<lparr>files := fs1\<rparr>;
                 new_cfg_path = project_name @ [''manim.cfg'']
             in
             if \<not> default_settings then
               (case build_cfg env a template_name CFG_DEFAULTS [] of
                  Inl e \<Rightarrow> Raised e w1
                | Inr new_cfg \<Rightarrow>
                    let w2 = w1\<lparr>trace := trace w1 @ [ConsolePrintCfg new_cfg]\<rparr> in
                    if confirm_answer a then
                      copy_and_update env project_name template_name new_cfg new_cfg_path w2
                    else Raised Abort w2)
             else
               copy_and_update env project_name template_name CFG_DEFAULTS new_cfg_path w1))"

section \<open>Sample inputs\<close>

text \<open>
  Concrete collaborators, answers and worlds, on which the model is run below. The
  quality table has the tier of the default resolution (480 high, 854 wide) and ends
  with the entry that \<^verbatim>\<open>select_resolution\<close> drops. The sample template-copy
  collaborator puts a scene file and a configuration file with an empty \<^verbatim>\<open>CLI\<close>
  section into the project directory; the sample import-injection collaborator puts the
  import line in front of the text of the file.
\<close>

definition sample_qualities :: "(string \<times> quality) list" where
  "sample_qualities =
     [(''high_quality'', \<lparr>pixel_height = 1080, pixel_width = 1920\<rparr>),
      (''low_quality'', \<lparr>pixel_height = 480, pixel_width = 854\<rparr>),
      (''example_quality'', \<lparr>pixel_height = 480, pixel_width = 854\<rparr>)]"

definition sample_cfg_text :: cfgfile where
  "sample_cfg_text = Parsed [''CLI'' \<mapsto> Map.empty]"

definition sample_copy :: "path \<Rightarrow> string \<Rightarrow> cfgfile collaborator" where
  "sample_copy project_name template_name fs =
     (None, fs(project_name @ [''main.py''] \<mapsto> File Malformed,
               project_name @ [''manim.cfg''] \<mapsto> File sample_cfg_text))"

definition sample_project_env :: project_env where
  "sample_project_env = \<lparr>qualities = sample_qualities, copy_template_files = sample_copy\<rparr>"

fun keep_default :: "string \<Rightarrow> pyval \<Rightarrow> pyval" where
  "keep_default key v = v"

definition sample_answers :: "bool \<Rightarrow> answers" where
  "sample_answers yes =
     \<lparr>project_name_answer = [''demo''], template_answer = ''Default'',
      resolution_answer = ''480p'', value_answer = keep_default, confirm_answer = yes\<rparr>"

definition empty_world :: "'c world" where
  "empty_world = \<lparr>files = Map.empty, trace = []\<rparr>"

definition sample_add_import :: "path \<Rightarrow> string collaborator" where
  "sample_add_import p fs =
     (case fs p of
        Some (File text) \<Rightarrow> (None, fs(p \<mapsto> File (''from manim import *'' @ [CHR 0x0A] @ text)))
      | Some Dir \<Rightarrow> (Some IsADirectoryError, fs)
      | None \<Rightarrow> (Some FileNotFoundError, fs))"

definition sample_templates :: "string \<Rightarrow> string option" where
  "sample_templates = [''Default'' \<mapsto> ''class DefaultTemplate(Scene): pass'']"

definition sample_scene_env :: scene_env where
  "sample_scene_env = \<lparr>templates = sample_templates, add_import_statement = sample_add_import\<rparr>"

text \<open>
  The configuration that the interactive path builds from the sample answers: the
  resolution entry is the pair that \<open>select_resolution\<close> returns for \<^verbatim>\<open>480p\<close>.
\<close>

definition sample_new_cfg :: "(string \<times> pyval) list" where
  "sample_new_cfg =
     [(''frame_rate'', VInt 30), (''background_color'', VStr ''BLACK''),
      (''background_opacity'', VInt 1), (''scene_names'', VStr ''DefaultTemplate''),
      (''resolution'', VPair 480 854)]"

text \<open>
  A project whose configuration file has two options in the \<^verbatim>\<open>CLI\<close> section and a
  second section.
\<close>

definition sample_cfg_path :: path where
  "sample_cfg_path = [''demo'', ''manim.cfg'']"

definition sample_store :: store where
  "sample_store =
     [''CLI'' \<mapsto> [''frame_rate'' \<mapsto> ''60'', ''media_dir'' \<mapsto> ''media''],
      ''logger'' \<mapsto> [''log_level'' \<mapsto> ''INFO'']]"

definition sample_cfg_world :: "cfgfile world" where
  "sample_cfg_world =
     \<lparr>files = [[''demo''] \<mapsto> Dir, sample_cfg_path \<mapsto> File (Parsed sample_store)], trace = []\<rparr>"

text \<open>The \<^verbatim>\<open>CLI\<close> section of that store once \<open>CFG_DEFAULTS\<close> is written into it.\<close>

definition sample_cli_updated :: cfg_section where
  "sample_cli_updated =
     [''media_dir'' \<mapsto> ''media'', ''frame_rate'' \<mapsto> ''30'',
      ''background_color'' \<mapsto> ''BLACK'', ''background_opacity'' \<mapsto> ''1'',
      ''scene_names'' \<mapsto> ''Default'', ''pixel_width'' \<mapsto> ''854'',
      ''pixel_height'' \<mapsto> ''480'']"

section \<open>Reading the claims\<close>

text \<open>
  The option stored for a key of a section of the configuration file at a path, if any.
\<close>

definition stored_option :: "cfgfile world \<Rightarrow> path \<Rightarrow> string \<Rightarrow> string \<Rightarrow> string option" where
  "stored_option w p sec key =
     (case files w p of
        Some (File (Parsed st)) \<Rightarrow> (case st sec of Some options \<Rightarrow> options key | None \<Rightarrow> None)
      | _ \<Rightarrow> None)"

text \<open>
  The option names that a configuration dictionary mentions: the entry
  \<^verbatim>\<open>resolution\<close> mentions \<^verbatim>\<open>pixel_width\<close> and \<^verbatim>\<open>pixel_height\<close>, any other
  entry mentions the option that its key names (the parser does not distinguish the case
  of letters in option names).
\<close>

definition mentions :: "(string \<times> pyval) list \<Rightarrow> string \<Rightarrow> bool" where
  "mentions cfg_dict k =
     list_ex (\<lambda>item.
        if fst item = ''resolution'' then k = ''pixel_width'' \<or> k = ''pixel_height''
        else k = optionxform (fst item)) cfg_dict"

section \<open>Properties of the string functions\<close>

lemma startswith_iff: "startswith s p \<longleftrightarrow> (\<exists>t. s = p @ t)"
  by (induction s p rule: startswith.induct) auto

lemma str_find_None: "str_find s sub = None \<longleftrightarrow> (\<nexists>pre post. s = pre @ sub @ post)"
proof (induction s)
  case Nil
  then show ?case by auto
next
  case (Cons c cs)
  show ?case
  proof (cases "startswith (c # cs) sub")
    case True
    then obtain t where "c # cs = sub @ t" by (auto simp: startswith_iff)
    then have "c # cs = [] @ sub @ t" by simp
    with True show ?thesis by (metis option.distinct(1) str_find.simps(2))
  next
    case False
    have "(\<exists>pre post. c # cs = pre @ sub @ post) \<longleftrightarrow> (\<exists>pre post. cs = pre @ sub @ post)"
    proof
      assume "\<exists>pre post. c # cs = pre @ sub @ post"
      then obtain pre post where e: "c # cs = pre @ sub @ post" by blast
      show "\<exists>pre post. cs = pre @ sub @ post"
      proof (cases pre)
        case Nil
        with e False show ?thesis by (auto simp: startswith_iff)
      next
        case (Cons a pre')
        with e have "cs = pre' @ sub @ post" by simp
        then show ?thesis by blast
      qed
    next
      assume "\<exists>pre post. cs = pre @ sub @ post"
      then obtain pre post where "cs = pre @ sub @ post" by blast
      then have "c # cs = (c # pre) @ sub @ post" by simp
      then show "\<exists>pre post. c # cs = pre @ sub @ post" by blast
    qed
    with False Cons.IH show ?thesis by simp
  qed
qed

lemma str_find_Some:
  "str_find s sub = Some i \<Longrightarrow>
     (\<exists>post. s = take i s @ sub @ post \<and> i \<le> length s) \<and>
     (\<forall>pre' post'. s = pre' @ sub @ post' \<longrightarrow> i \<le> length pre')"
proof (induction s arbitrary: i)
  case Nil
  then show ?case by (auto split: if_splits)
next
  case (Cons c cs)
  show ?case
  proof (cases "startswith (c # cs) sub")
    case True
    with Cons.prems have "i = 0" by simp
    with True show ?thesis by (auto simp: startswith_iff)
  next
    case False
    with Cons.prems obtain j where j: "str_find cs sub = Some j" "i = Suc j" by auto
    from Cons.IH[OF j(1)] obtain post where
      p: "cs = take j cs @ sub @ post" "j \<le> length cs"
      and m: "\<forall>pre' post'. cs = pre' @ sub @ post' \<longrightarrow> j \<le> length pre'" by blast
    have a: "\<exists>post. c # cs = take i (c # cs) @ sub @ post \<and> i \<le> length (c # cs)"
      using p j(2) by auto
    have b: "i \<le> length pre'" if e: "c # cs = pre' @ sub @ post'" for pre' post'
    proof (cases pre')
      case Nil
      with e False show ?thesis by (auto simp: startswith_iff)
    next
      case (Cons a pre'')
      with e have "cs = pre'' @ sub @ post'" by simp
      with m have "j \<le> length pre''" by blast
      with Cons j(2) show ?thesis by simp
    qed
    from a b show ?thesis by blast
  qed
qed

lemma str_replace1_first:
  assumes s: "s = pre @ old @ post"
    and first: "\<forall>pre' post'. s = pre' @ old @ post' \<longrightarrow> length pre \<le> length pre'"
  shows "str_replace1 s old new = pre @ new @ post"
proof -
  from s have "str_find s old \<noteq> None" by (auto simp: str_find_None)
  then obtain i where i: "str_find s old = Some i" by blast
  from str_find_Some[OF i] obtain post0 where
    p: "s = take i s @ old @ post0" "i \<le> length s"
    and m: "\<forall>pre' post'. s = pre' @ old @ post' \<longrightarrow> i \<le> length pre'" by blast
  from m s have "i \<le> length pre" by blast
  moreover from first p(1) have "length pre \<le> length (take i s)" by blast
  ultimately have len: "i = length pre" using p(2) by simp
  with s have "take i s = pre" "drop (i + length old) s = post" by auto
  with i show ?thesis by (simp add: str_replace1_def)
qed

lemma str_replace1_absent:
  "\<nexists>pre post. s = pre @ old @ post \<Longrightarrow> str_replace1 s old new = s"
proof -
  assume "\<nexists>pre post. s = pre @ old @ post"
  then have "str_find s old = None" using str_find_None[of s old] by blast
  then show ?thesis by (simp add: str_replace1_def)
qed

section \<open>Claims about rendering\<close>

text \<open>
  Claim C9. For every stub text, template name and scene name: when the stub contains the
  placeholder \<open>template_name @ ''Template''\<close>, and \<open>pre\<close> is the text before its leftmost
  occurrence and \<open>post\<close> the text after that occurrence, the rendered text is
  \<open>pre @ scene_name @ post\<close>, so everything after the first occurrence (any later
  occurrence included) is kept as it is; when the stub does not contain the placeholder
  the rendered text is the stub itself. \<open>render\<close> is a total function: no error value exists.
\<close>

theorem render_replaces_first_occurrence_only:
  "(\<forall>pre post.
      stub = pre @ (template_name @ ''Template'') @ post \<and>
      (\<forall>pre' post'. stub = pre' @ (template_name @ ''Template'') @ post'
          \<longrightarrow> length pre \<le> length pre')
      \<longrightarrow> render stub template_name scene_name = pre @ scene_name @ post) \<and>
   ((\<nexists>pre post. stub = pre @ (template_name @ ''Template'') @ post)
      \<longrightarrow> render stub template_name scene_name = stub)"
proof (intro conjI allI impI)
  fix pre post
  assume "stub = pre @ (template_name @ ''Template'') @ post \<and>
      (\<forall>pre' post'. stub = pre' @ (template_name @ ''Template'') @ post'
          \<longrightarrow> length pre \<le> length pre')"
  then show "render stub template_name scene_name = pre @ scene_name @ post"
    unfolding render_def by (intro str_replace1_first) blast+
next
  assume "\<nexists>pre post. stub = pre @ (template_name @ ''Template'') @ post"
  then show "render stub template_name scene_name = stub"
    unfolding render_def by (rule str_replace1_absent)
qed

theorem render_replaces_first_occurrence_only_witness:
  "render ''class DefaultTemplate(DefaultTemplate)'' ''Default'' ''MyScene''
     = ''class MyScene(DefaultTemplate)'' \<and>
   render ''pass'' ''Default'' ''MyScene'' = ''pass''"
proof
  let ?stub = "''class DefaultTemplate(DefaultTemplate)''"
  have f: "str_find ?stub (''Default'' @ ''Template'') = Some 6"
    by simp
  have m: "\<forall>pre' post'. ?stub = pre' @ (''Default'' @ ''Template'') @ post'
          \<longrightarrow> length ''class '' \<le> length pre'"
  proof -
    have "length ''class '' = (6::nat)" by simp
    with str_find_Some[OF f] show ?thesis by metis
  qed
  have e: "?stub = ''class '' @ (''Default'' @ ''Template'') @ ''(DefaultTemplate)''"
    by simp
  from render_replaces_first_occurrence_only[of ?stub "''Default''" "''MyScene''"] e m
  have "render ?stub ''Default'' ''MyScene'' = ''class '' @ ''MyScene'' @ ''(DefaultTemplate)''"
    by blast
  then show "render ?stub ''Default'' ''MyScene'' = ''class MyScene(DefaultTemplate)''"
    by simp
next
  have "str_find ''pass'' (''Default'' @ ''Template'') = None" by simp
  then have "\<nexists>pre post. ''pass'' = pre @ (''Default'' @ ''Template'') @ post"
    using str_find_None[of "''pass''" "''Default'' @ ''Template''"] by blast
  with render_replaces_first_occurrence_only[of "''pass''" "''Default''" "''MyScene''"]
  show "render ''pass'' ''Default'' ''MyScene'' = ''pass''" by blast
qed

section \<open>Properties of paths\<close>

lemma str_rfind_Some: "str_rfind s c = Some i \<Longrightarrow> i < length s \<and> s ! i = c"
  by (induction s arbitrary: i) (auto split: option.splits if_splits)

lemma path_suffix_cases:
  "path_suffix p = [] \<or>
   (\<exists>i. 0 < i \<and> i < length (path_name p) \<and> path_suffix p = drop i (path_name p) \<and>
        path_name p ! i = CHR ''.'')"
  unfolding path_suffix_def Let_def
  by (auto split: option.splits dest: str_rfind_Some)

lemma with_suffix_py:
  assumes "path_name p \<noteq> []" "CHR ''/'' \<notin> set (path_name p)"
  shows "with_suffix p (path_suffix p @ ''.py'') = Inr (butlast p @ [path_name p @ ''.py''])"
proof -
  from path_suffix_cases[of p] show ?thesis
  proof
    assume e: "path_suffix p = []"
    with assms show ?thesis by (simp add: with_suffix_def)
  next
    assume "\<exists>i. 0 < i \<and> i < length (path_name p) \<and> path_suffix p = drop i (path_name p) \<and>
        path_name p ! i = CHR ''.''"
    then obtain i where i: "0 < i" "i < length (path_name p)"
      "path_suffix p = drop i (path_name p)" "path_name p ! i = CHR ''.''" by blast
    from i(2,3,4) obtain rest where r: "path_suffix p = CHR ''.'' # rest"
      by (metis Cons_nth_drop_Suc)
    from i(3) assms(2) have ns: "CHR ''/'' \<notin> set (path_suffix p)"
      by (metis in_set_dropD)
    have tk: "take (length (path_name p) - length (path_suffix p)) (path_name p) @ path_suffix p
        = path_name p"
      using i(2,3) by simp
    from r ns assms(1) tk show ?thesis
      by (simp add: with_suffix_def Let_def del: append_take_drop_id)
  qed
qed

section \<open>Claims about the scene command\<close>

text \<open>
  Claim C10. An explicit target file name (a path whose last component is a non-empty
  name without a separator) whose suffix is not \<^verbatim>\<open>.py\<close> is used with
  \<^verbatim>\<open>.py\<close> appended to the whole name, after the suffix it has; a name whose suffix is
  \<^verbatim>\<open>.py\<close> is used as it is.
\<close>

theorem scene_target_appends_py:
  assumes "file_name \<noteq> []" "last file_name \<noteq> []" "CHR ''/'' \<notin> set (last file_name)"
  shows "target_path file_name =
           Inr (if path_suffix file_name = ''.py'' then file_name
                else butlast file_name @ [last file_name @ ''.py''])"
  using assms with_suffix_py[of file_name]
  by (simp add: target_path_def path_name_def)

theorem scene_target_appends_py_witness:
  "target_path [''demo.txt''] = Inr [''demo.txt.py''] \<and>
   target_path [''demo''] = Inr [''demo.py''] \<and>
   target_path [''demo.py''] = Inr [''demo.py'']"
proof -
  have s: "path_suffix [''demo.txt''] = ''.txt''" "path_suffix [''demo''] = []"
    "path_suffix [''demo.py''] = ''.py''"
    by (simp_all add: path_suffix_def path_name_def)
  show ?thesis
    using scene_target_appends_py[of "[''demo.txt'']"] scene_target_appends_py[of "[''demo'']"]
      scene_target_appends_py[of "[''demo.py'']"] s
    by simp
qed

section \<open>Properties of the file system and of collaborators\<close>

lemmas fs_defs = lookup_def is_dir_def is_file_def check_parent_def mkdir_def
  open_for_writing_def write_file_def append_text_def

lemmas sample_defs = sample_qualities_def sample_cfg_text_def sample_copy_def
  sample_project_env_def sample_answers_def empty_world_def sample_add_import_def
  sample_templates_def sample_scene_env_def


lemma append_text_absent:
  "lookup fs p = None \<Longrightarrow> is_dir fs (butlast p) \<Longrightarrow> append_text fs p s = Inr (fs(p \<mapsto> File s))"
  by (auto simp: append_text_def open_for_writing_def check_parent_def is_dir_def
      split: option.splits node.splits)


lemma write_file_existing:
  "lookup fs p = Some (File old) \<Longrightarrow> write_file fs p c = Inr (fs(p \<mapsto> File c))"
  by (simp add: write_file_def open_for_writing_def)



section \<open>Claims about scene insertion\<close>




text \<open>
  Claim C2. Without an explicit target the scene goes to \<^verbatim>\<open>main.py\<close>. The claim is
  that an absent \<^verbatim>\<open>main.py\<close> makes the command fail with a not-found error and is
  not created, as the comment at line 185 says. The code opens the file in mode
  \<^verbatim>\<open>"a"\<close>, which creates it: on a file system without \<^verbatim>\<open>main.py\<close> the command
  ends normally and \<^verbatim>\<open>main.py\<close> then exists, holding the separator and the scene.
\<close>

theorem scene_default_target_is_created:
  "scene sample_scene_env ''MyScene'' None ''Default'' empty_world =
     Done \<lparr>files = [[''main.py''] \<mapsto> File (separator @ ''class MyScene(Scene): pass'')],
           trace = []\<rparr>"
  by (simp add: scene_def sample_defs fs_defs render_def str_replace1_def)

section \<open>Properties of update\_cfg\<close>

text \<open>
  Whatever section the loop starts from, it ends with that section overwritten by one and
  the same finite map of options.
\<close>

lemma cfg_loop_writes:
  "cfg_loop cfg_dict cli = Inr cli' \<Longrightarrow>
     \<exists>ws. cli' = cli ++ ws \<and> (\<forall>cli2. cfg_loop cfg_dict cli2 = Inr (cli2 ++ ws))"
proof (induction cfg_dict cli rule: cfg_loop.induct)
  case (1 cli_config)
  then have "cli' = cli_config ++ Map.empty \<and> (\<forall>cli2. cfg_loop [] cli2 = Inr (cli2 ++ Map.empty))"
    by simp
  then show ?case by blast
next
  case (2 key v items cli_config)
  show ?case
  proof (cases "key = ''resolution''")
    case True
    with "2.prems" obtain v0 v1 where
      g: "py_getitem v 0 = Inr v0" "py_getitem v 1 = Inr v1"
      and l: "cfg_loop items (setitem (setitem cli_config ''pixel_width'' (py_str v0))
                       ''pixel_height'' (py_str v1)) = Inr cli'"
      by (auto split: sum.splits)
    from "2.IH"(1)[OF True g l] obtain ws where
      ws: "cli' = setitem (setitem cli_config ''pixel_width'' (py_str v0))
                       ''pixel_height'' (py_str v1) ++ ws"
        "\<forall>cli2. cfg_loop items cli2 = Inr (cli2 ++ ws)" by blast
    let ?u = "[optionxform ''pixel_width'' \<mapsto> py_str v0, optionxform ''pixel_height'' \<mapsto> py_str v1]"
    have u: "setitem (setitem m ''pixel_width'' (py_str v0)) ''pixel_height'' (py_str v1)
        = m ++ ?u" for m
      by (simp add: setitem_def)
    have "cli' = cli_config ++ (?u ++ ws)"
      using ws(1) by (simp only: u map_add_assoc)
    moreover have "cfg_loop ((key, v) # items) cli2 = Inr (cli2 ++ (?u ++ ws))" for cli2
    proof -
      have "cfg_loop ((key, v) # items) cli2 =
          cfg_loop items (setitem (setitem cli2 ''pixel_width'' (py_str v0))
                       ''pixel_height'' (py_str v1))"
        using True g by simp
      also have "\<dots> = Inr ((cli2 ++ ?u) ++ ws)"
        using ws(2) by (simp only: u)
      finally show ?thesis by (simp only: map_add_assoc)
    qed
    ultimately show ?thesis by blast
  next
    case False
    with "2.prems" have l: "cfg_loop items (setitem cli_config key (py_str v)) = Inr cli'"
      by simp
    from "2.IH"(2)[OF False l] obtain ws where
      ws: "cli' = setitem cli_config key (py_str v) ++ ws"
        "\<forall>cli2. cfg_loop items cli2 = Inr (cli2 ++ ws)" by blast
    let ?u = "[optionxform key \<mapsto> py_str v]"
    have u: "setitem m key (py_str v) = m ++ ?u" for m
      by (simp add: setitem_def)
    have "cli' = cli_config ++ (?u ++ ws)"
      using ws(1) by (simp only: u map_add_assoc)
    moreover have "cfg_loop ((key, v) # items) cli2 = Inr (cli2 ++ (?u ++ ws))" for cli2
    proof -
      have "cfg_loop ((key, v) # items) cli2 = cfg_loop items (setitem cli2 key (py_str v))"
        using False by simp
      also have "\<dots> = Inr ((cli2 ++ ?u) ++ ws)"
        using ws(2) by (simp only: u)
      finally show ?thesis by (simp only: map_add_assoc)
    qed
    ultimately show ?thesis by blast
  qed
qed

lemma map_add_twice: "(m ++ ws) ++ ws = m ++ (ws :: 'a \<Rightarrow> 'b option)"
  by (rule ext) (simp add: map_add_def split: option.splits)

lemma cfg_loop_idempotent:
  assumes "cfg_loop cfg_dict cli = Inr cli'"
  shows "cfg_loop cfg_dict cli' = Inr cli'"
proof -
  from cfg_loop_writes[OF assms] obtain ws where
    ws: "cli' = cli ++ ws" "\<forall>cli2. cfg_loop cfg_dict cli2 = Inr (cli2 ++ ws)" by blast
  from ws(2) have "cfg_loop cfg_dict cli' = Inr (cli' ++ ws)" by blast
  with ws(1) show ?thesis by (simp add: map_add_twice)
qed

lemma cfg_loop_frame:
  "cfg_loop cfg_dict cli = Inr cli' \<Longrightarrow> \<not> mentions cfg_dict k \<Longrightarrow> cli' k = cli k"
proof (induction cfg_dict cli rule: cfg_loop.induct)
  case (1 cli_config)
  then show ?case by simp
next
  case (2 key v items cli_config)
  have px: "optionxform ''pixel_width'' = ''pixel_width''"
    "optionxform ''pixel_height'' = ''pixel_height''"
    by (simp_all add: optionxform_def lower_char_def)
  from "2.prems"(2) have nm: "\<not> mentions items k"
    by (simp add: mentions_def)
  show ?case
  proof (cases "key = ''resolution''")
    case True
    with "2.prems" obtain v0 v1 where
      g: "py_getitem v 0 = Inr v0" "py_getitem v 1 = Inr v1"
      and l: "cfg_loop items (setitem (setitem cli_config ''pixel_width'' (py_str v0))
                       ''pixel_height'' (py_str v1)) = Inr cli'"
      by (auto split: sum.splits)
    from "2.prems"(2) True have "k \<noteq> ''pixel_width''" "k \<noteq> ''pixel_height''"
      by (simp_all add: mentions_def)
    with "2.IH"(1)[OF True g l nm] show ?thesis
      by (simp add: setitem_def px)
  next
    case False
    with "2.prems" have l: "cfg_loop items (setitem cli_config key (py_str v)) = Inr cli'"
      by simp
    from "2.prems"(2) False have "k \<noteq> optionxform key"
      by (simp add: mentions_def)
    with "2.IH"(2)[OF False l nm] show ?thesis
      by (simp add: setitem_def)
  qed
qed

lemma read_config_Parsed:
  "read_config fs p = Inr st \<Longrightarrow> st ''CLI'' = Some cli \<Longrightarrow>
     lookup fs p = Some (File (Parsed st)) \<and> fs p = Some (File (Parsed st)) \<and> p \<noteq> []"
  by (auto simp: read_config_def lookup_def split: option.splits node.splits cfgfile.splits if_splits)

text \<open>The three ways in which \<open>update_cfg\<close> ends.\<close>

lemma update_cfg_cases:
  obtains
    (unchanged) e where "update_cfg cfg_dict p w = Raised e w"
  | (written) st cli cli' where
      "files w p = Some (File (Parsed st))" "p \<noteq> []" "st ''CLI'' = Some cli"
      "cfg_loop cfg_dict cli = Inr cli'"
      "update_cfg cfg_dict p w = Done (w\<lparr>files := (files w)(p \<mapsto> File (Parsed (st(''CLI'' \<mapsto> cli'))))\<rparr>)"
proof (cases "read_config (files w) p")
  case (Inl e)
  then have "update_cfg cfg_dict p w = Raised e w" by (simp add: update_cfg_def)
  then show ?thesis by (rule unchanged)
next
  case (Inr st)
  show ?thesis
  proof (cases "st ''CLI''")
    case None
    with Inr have "update_cfg cfg_dict p w = Raised (KeyError ''CLI'') w"
      by (simp add: update_cfg_def)
    then show ?thesis by (rule unchanged)
  next
    case (Some cli)
    from read_config_Parsed[OF Inr Some] have
      f: "lookup (files w) p = Some (File (Parsed st))" "files w p = Some (File (Parsed st))" "p \<noteq> []"
      by simp_all
    show ?thesis
    proof (cases "cfg_loop cfg_dict cli")
      case (Inl e)
      with Inr Some have "update_cfg cfg_dict p w = Raised e w" by (simp add: update_cfg_def)
      then show ?thesis by (rule unchanged)
    next
      case l: (Inr cli')
      with Inr Some write_file_existing[OF f(1)]
      have "update_cfg cfg_dict p w =
          Done (w\<lparr>files := (files w)(p \<mapsto> File (Parsed (st(''CLI'' \<mapsto> cli'))))\<rparr>)"
        by (simp add: update_cfg_def)
      with f(2,3) Some l show ?thesis by (rule written)
    qed
  qed
qed

lemma update_cfg_stored_frame:
  assumes "q \<noteq> p \<or> sec \<noteq> ''CLI'' \<or> \<not> mentions cfg_dict k"
  shows "stored_option (world_of (update_cfg cfg_dict p w)) q sec k = stored_option w q sec k"
proof (cases cfg_dict p w rule: update_cfg_cases)
  case (unchanged e)
  then show ?thesis by simp
next
  case (written st cli cli')
  show ?thesis
  proof (cases "q = p")
    case False
    with written(5) show ?thesis by (simp add: stored_option_def)
  next
    case True
    show ?thesis
    proof (cases "sec = ''CLI''")
      case False
      with True written(1,5) show ?thesis by (simp add: stored_option_def)
    next
      case sec: True
      with True assms have "\<not> mentions cfg_dict k" by simp
      from cfg_loop_frame[OF written(4) this] True sec written(1,3,5) show ?thesis
        by (simp add: stored_option_def)
    qed
  qed
qed

text \<open>The model run on the sample project.\<close>

lemma digits_lt10: "n < 10 \<Longrightarrow> digits n = [''0123456789'' ! n]"
  by (simp add: digits.simps)

lemma digits_ge10:
  "\<not> n < 10 \<Longrightarrow> digits n = digits (n div 10) @ [''0123456789'' ! (n mod 10)]"
  by (subst digits.simps) simp

lemmas sample_cfg_defs = sample_cfg_path_def sample_store_def sample_cfg_world_def

lemma read_sample: "read_config (files sample_cfg_world) sample_cfg_path = Inr sample_store"
  by (simp add: read_config_def lookup_def sample_cfg_defs)

lemma not_mentioned_media_dir: "\<not> mentions CFG_DEFAULTS ''media_dir''"
  by (simp add: mentions_def CFG_DEFAULTS_def optionxform_def lower_char_def)

lemma loop_sample:
  "cfg_loop CFG_DEFAULTS [''frame_rate'' \<mapsto> ''60'', ''media_dir'' \<mapsto> ''media''] = Inr sample_cli_updated"
  by (simp add: CFG_DEFAULTS_def setitem_def optionxform_def lower_char_def
      str_int_def digits_lt10 digits_ge10 sample_cli_updated_def)

lemma update_sample:
  "update_cfg CFG_DEFAULTS sample_cfg_path sample_cfg_world =
     Done (sample_cfg_world\<lparr>files := (files sample_cfg_world)(sample_cfg_path \<mapsto>
        File (Parsed (sample_store(''CLI'' \<mapsto> sample_cli_updated))))\<rparr>)"
proof -
  have c: "sample_store ''CLI'' = Some [''frame_rate'' \<mapsto> ''60'', ''media_dir'' \<mapsto> ''media'']"
    by (simp add: sample_store_def)
  have l: "lookup (files sample_cfg_world) sample_cfg_path = Some (File (Parsed sample_store))"
    by (simp add: lookup_def sample_cfg_world_def sample_cfg_path_def)
  show ?thesis
    by (simp add: update_cfg_def read_sample c loop_sample write_file_existing[OF l])
qed

lemma stored_sample:
  "stored_option (world_of (update_cfg CFG_DEFAULTS sample_cfg_path sample_cfg_world))
     sample_cfg_path ''CLI'' k = sample_cli_updated k"
  by (simp only: update_sample) (simp add: stored_option_def)

section \<open>Claims about update\_cfg\<close>

text \<open>
  Claim C6. When the store that \<open>update_cfg\<close> reads from the path has no \<^verbatim>\<open>CLI\<close>
  section (an absent file reads as the empty store), the call raises \<^verbatim>\<open>KeyError\<close> for
  \<^verbatim>\<open>CLI\<close>, the missing-section error, and the world is the one it started in:
  nothing is written.
\<close>

theorem update_cfg_missing_section:
  assumes "read_config (files w) p = Inr st" and "st ''CLI'' = None"
  shows "update_cfg cfg_dict p w = Raised (KeyError ''CLI'') w"
  using assms by (simp add: update_cfg_def)

theorem update_cfg_missing_section_witness:
  "update_cfg CFG_DEFAULTS sample_cfg_path empty_world = Raised (KeyError ''CLI'') empty_world \<and>
   update_cfg CFG_DEFAULTS sample_cfg_path
      \<lparr>files = [sample_cfg_path \<mapsto> File (Parsed [''logger'' \<mapsto> Map.empty])], trace = []\<rparr> =
     Raised (KeyError ''CLI'')
      \<lparr>files = [sample_cfg_path \<mapsto> File (Parsed [''logger'' \<mapsto> Map.empty])], trace = []\<rparr>"
proof
  have "read_config (files (empty_world :: cfgfile world)) sample_cfg_path = Inr Map.empty"
    by (simp add: read_config_def lookup_def empty_world_def)
  from update_cfg_missing_section[OF this]
  show "update_cfg CFG_DEFAULTS sample_cfg_path empty_world = Raised (KeyError ''CLI'') empty_world"
    by simp
next
  let ?w = "\<lparr>files = [sample_cfg_path \<mapsto> File (Parsed [''logger'' \<mapsto> Map.empty])], trace = []\<rparr>"
  have "read_config (files ?w) sample_cfg_path = Inr [''logger'' \<mapsto> Map.empty]"
    by (simp add: read_config_def lookup_def sample_cfg_path_def)
  from update_cfg_missing_section[OF this]
  show "update_cfg CFG_DEFAULTS sample_cfg_path ?w = Raised (KeyError ''CLI'') ?w"
    by simp
qed

text \<open>
  Claim C4. For every world, path and configuration dictionary, with \<open>st\<close> the store read
  from the path before the call: the store read after the call has the same sections,
  every section other than \<^verbatim>\<open>CLI\<close> is the same, and every option of \<^verbatim>\<open>CLI\<close> that
  the dictionary does not mention (\<^verbatim>\<open>resolution\<close> mentioning \<^verbatim>\<open>pixel_width\<close> and
  \<^verbatim>\<open>pixel_height\<close>) has the value it had. Stores are maps, so this is about content
  and not about the order on disk.
\<close>

theorem update_cfg_preserves_unmentioned:
  assumes "read_config (files w) p = Inr st"
  shows "\<exists>st'. read_config (files (world_of (update_cfg cfg_dict p w))) p = Inr st' \<and>
           dom st' = dom st \<and>
           (\<forall>sec. sec \<noteq> ''CLI'' \<longrightarrow> st' sec = st sec) \<and>
           (\<forall>cli. st ''CLI'' = Some cli \<longrightarrow>
              (\<exists>cli'. st' ''CLI'' = Some cli' \<and>
                 (\<forall>k. \<not> mentions cfg_dict k \<longrightarrow> cli' k = cli k)))"
proof (cases cfg_dict p w rule: update_cfg_cases)
  case (unchanged e)
  with assms show ?thesis by auto
next
  case (written st0 cli cli')
  from written(1,2) assms have st: "st0 = st"
    by (simp add: read_config_def lookup_def)
  let ?st' = "st(''CLI'' \<mapsto> cli')"
  have "read_config (files (world_of (update_cfg cfg_dict p w))) p = Inr ?st'"
    using written(2,5) st by (simp add: read_config_def lookup_def)
  moreover have "dom ?st' = dom st" using written(3) st by auto
  moreover have "\<forall>sec. sec \<noteq> ''CLI'' \<longrightarrow> ?st' sec = st sec" by simp
  moreover have "\<forall>c. st ''CLI'' = Some c \<longrightarrow>
              (\<exists>c'. ?st' ''CLI'' = Some c' \<and> (\<forall>k. \<not> mentions cfg_dict k \<longrightarrow> c' k = c k))"
    using written(3,4) st cfg_loop_frame by auto
  ultimately show ?thesis by blast
qed

theorem update_cfg_preserves_unmentioned_witness:
  "\<exists>st' cli'.
     read_config (files (world_of (update_cfg CFG_DEFAULTS sample_cfg_path sample_cfg_world)))
       sample_cfg_path = Inr st' \<and>
     st' ''logger'' = sample_store ''logger'' \<and>
     st' ''CLI'' = Some cli' \<and>
     cli' ''media_dir'' = Some ''media'' \<and>
     cli' ''frame_rate'' = Some ''30''"
proof -
  from update_cfg_preserves_unmentioned[OF read_sample, of CFG_DEFAULTS]
  obtain st' where
    r: "read_config (files (world_of (update_cfg CFG_DEFAULTS sample_cfg_path sample_cfg_world)))
       sample_cfg_path = Inr st'"
    and o: "\<forall>sec. sec \<noteq> ''CLI'' \<longrightarrow> st' sec = sample_store sec"
    and k: "\<forall>cli. sample_store ''CLI'' = Some cli \<longrightarrow>
              (\<exists>cli'. st' ''CLI'' = Some cli' \<and>
                 (\<forall>k. \<not> mentions CFG_DEFAULTS k \<longrightarrow> cli' k = cli k))"
    by (elim exE conjE)
  have c: "sample_store ''CLI'' = Some [''frame_rate'' \<mapsto> ''60'', ''media_dir'' \<mapsto> ''media'']"
    by (simp add: sample_store_def)
  from k[rule_format, OF c] obtain cli' where
    cli': "st' ''CLI'' = Some cli'"
      "\<forall>k. \<not> mentions CFG_DEFAULTS k \<longrightarrow>
          cli' k = [''frame_rate'' \<mapsto> ''60'', ''media_dir'' \<mapsto> ''media''] k"
    by (elim exE conjE)
  from cli'(2)[rule_format, OF not_mentioned_media_dir]
  have m: "cli' ''media_dir'' = Some ''media''" by simp
  from o[rule_format, of "''logger''"] have l: "st' ''logger'' = sample_store ''logger''" by simp
  have "read_config (files (world_of (update_cfg CFG_DEFAULTS sample_cfg_path sample_cfg_world)))
       sample_cfg_path = Inr (sample_store(''CLI'' \<mapsto> sample_cli_updated))"
    by (simp only: update_sample) (simp add: read_config_def lookup_def sample_cfg_path_def)
  with r have st: "st' = sample_store(''CLI'' \<mapsto> sample_cli_updated)" by (simp only: sum.inject)
  from cli'(1) have "cli' = sample_cli_updated" unfolding st by simp
  then have f: "cli' ''frame_rate'' = Some ''30''" by (simp add: sample_cli_updated_def)
  show ?thesis
    by (rule exI[of _ st'], rule exI[of _ cli']) (simp only: r l cli'(1) m f simp_thms)
qed

text \<open>
  Claim C5. Calling \<open>update_cfg\<close> a second time with the same dictionary, on the world the
  first call leaves, ends as the first call did and leaves the same world; and any option
  of another file, of another section, or not mentioned by the dictionary is after the
  two calls what it was before them.
\<close>

theorem update_cfg_idempotent:
  "update_cfg cfg_dict p (world_of (update_cfg cfg_dict p w)) = update_cfg cfg_dict p w \<and>
   (\<forall>q sec k. q \<noteq> p \<or> sec \<noteq> ''CLI'' \<or> \<not> mentions cfg_dict k \<longrightarrow>
      stored_option (world_of (update_cfg cfg_dict p (world_of (update_cfg cfg_dict p w)))) q sec k
        = stored_option w q sec k)"
proof
  show "update_cfg cfg_dict p (world_of (update_cfg cfg_dict p w)) = update_cfg cfg_dict p w"
  proof (cases cfg_dict p w rule: update_cfg_cases)
    case (unchanged e)
    then show ?thesis by simp
  next
    case (written st cli cli')
    let ?w1 = "w\<lparr>files := (files w)(p \<mapsto> File (Parsed (st(''CLI'' \<mapsto> cli'))))\<rparr>"
    have r: "read_config (files ?w1) p = Inr (st(''CLI'' \<mapsto> cli'))"
      using written(2) by (simp add: read_config_def lookup_def)
    have wf: "write_file (files ?w1) p c = Inr ((files ?w1)(p \<mapsto> File c))" for c
      using written(2) by (intro write_file_existing) (simp add: lookup_def)
    have "update_cfg cfg_dict p ?w1 = Done ?w1"
      using r cfg_loop_idempotent[OF written(4)] wf
      by (simp add: update_cfg_def)
    with written(5) show ?thesis by simp
  qed
  then show "\<forall>q sec k. q \<noteq> p \<or> sec \<noteq> ''CLI'' \<or> \<not> mentions cfg_dict k \<longrightarrow>
      stored_option (world_of (update_cfg cfg_dict p (world_of (update_cfg cfg_dict p w)))) q sec k
        = stored_option w q sec k"
    by (simp add: update_cfg_stored_frame)
qed

theorem update_cfg_idempotent_witness:
  "update_cfg CFG_DEFAULTS sample_cfg_path
      (world_of (update_cfg CFG_DEFAULTS sample_cfg_path sample_cfg_world)) =
     update_cfg CFG_DEFAULTS sample_cfg_path sample_cfg_world \<and>
   stored_option
      (world_of (update_cfg CFG_DEFAULTS sample_cfg_path
         (world_of (update_cfg CFG_DEFAULTS sample_cfg_path sample_cfg_world))))
      sample_cfg_path ''CLI'' ''media_dir'' = Some ''media'' \<and>
   stored_option
      (world_of (update_cfg CFG_DEFAULTS sample_cfg_path
         (world_of (update_cfg CFG_DEFAULTS sample_cfg_path sample_cfg_world))))
      sample_cfg_path ''CLI'' ''pixel_width'' = Some ''854''"
proof -
  note th = update_cfg_idempotent[of CFG_DEFAULTS sample_cfg_path sample_cfg_world]
  from th have 1: "update_cfg CFG_DEFAULTS sample_cfg_path
      (world_of (update_cfg CFG_DEFAULTS sample_cfg_path sample_cfg_world)) =
     update_cfg CFG_DEFAULTS sample_cfg_path sample_cfg_world" by (rule conjunct1)
  from th[THEN conjunct2, rule_format, of sample_cfg_path "''CLI''" "''media_dir''"]
    not_mentioned_media_dir have "stored_option
      (world_of (update_cfg CFG_DEFAULTS sample_cfg_path
         (world_of (update_cfg CFG_DEFAULTS sample_cfg_path sample_cfg_world))))
      sample_cfg_path ''CLI'' ''media_dir'' =
      stored_option sample_cfg_world sample_cfg_path ''CLI'' ''media_dir''" by simp
  then have 2: "stored_option
      (world_of (update_cfg CFG_DEFAULTS sample_cfg_path
         (world_of (update_cfg CFG_DEFAULTS sample_cfg_path sample_cfg_world))))
      sample_cfg_path ''CLI'' ''media_dir'' = Some ''media''"
    by (simp add: stored_option_def sample_cfg_defs)
  have 3: "stored_option
      (world_of (update_cfg CFG_DEFAULTS sample_cfg_path
         (world_of (update_cfg CFG_DEFAULTS sample_cfg_path sample_cfg_world))))
      sample_cfg_path ''CLI'' ''pixel_width'' = Some ''854''"
    by (simp only: 1 stored_sample) (simp add: sample_cli_updated_def)
  from 1 2 3 show ?thesis by (intro conjI)
qed

section \<open>Properties of the project command\<close>

lemma select_sample: "select_resolution sample_qualities ''480p'' = Inr (480, 854)"
  by (simp add: select_resolution_def sample_qualities_def str_int_def digits_lt10 digits_ge10)

lemma build_sample:
  "build_cfg sample_project_env (sample_answers yes) ''Default'' CFG_DEFAULTS [] = Inr sample_new_cfg"
  by (simp add: CFG_DEFAULTS_def sample_project_env_def sample_answers_def select_sample
      sample_new_cfg_def)

lemma mkdir_absent:
  "lookup fs p = None \<Longrightarrow> is_dir fs (butlast p) \<Longrightarrow> mkdir fs p = Inr (fs(p \<mapsto> Dir))"
  by (auto simp: mkdir_def check_parent_def is_dir_def split: option.splits node.splits)

lemma is_dir_lookup: "is_dir fs p \<longleftrightarrow> lookup fs p = Some Dir"
  by (auto simp: is_dir_def split: option.splits node.splits)

lemma copy_and_update_sample:
  "copy_and_update sample_project_env [''demo''] ''Default'' sample_new_cfg [''demo'', ''manim.cfg'']
      \<lparr>files = [[''demo''] \<mapsto> Dir], trace = tr\<rparr> =
   Done \<lparr>files =
        [[''demo''] \<mapsto> Dir, [''demo'', ''main.py''] \<mapsto> File Malformed,
         [''demo'', ''manim.cfg''] \<mapsto> File (Parsed
            [''CLI'' \<mapsto>
              [''frame_rate'' \<mapsto> ''30'', ''background_color'' \<mapsto> ''BLACK'',
               ''background_opacity'' \<mapsto> ''1'', ''scene_names'' \<mapsto> ''DefaultTemplate'',
               ''pixel_width'' \<mapsto> ''480'', ''pixel_height'' \<mapsto> ''854'']])],
      trace = tr @ [CopyTemplateFiles [''demo''] ''Default'']\<rparr>"
  apply (simp add: copy_and_update_def invoke_def sample_project_env_def sample_copy_def)
  apply (simp add: update_cfg_def read_config_def lookup_def sample_cfg_text_def)
  apply (simp add: sample_new_cfg_def setitem_def optionxform_def lower_char_def
      str_int_def digits_lt10 digits_ge10 write_file_def open_for_writing_def lookup_def)
  done

lemma project_interactive_sample:
  "project sample_project_env (sample_answers True) False (Some [''demo'']) empty_world =
   Done \<lparr>files =
        [[''demo''] \<mapsto> Dir, [''demo'', ''main.py''] \<mapsto> File Malformed,
         [''demo'', ''manim.cfg''] \<mapsto> File (Parsed
            [''CLI'' \<mapsto>
              [''frame_rate'' \<mapsto> ''30'', ''background_color'' \<mapsto> ''BLACK'',
               ''background_opacity'' \<mapsto> ''1'', ''scene_names'' \<mapsto> ''DefaultTemplate'',
               ''pixel_width'' \<mapsto> ''480'', ''pixel_height'' \<mapsto> ''854'']])],
      trace = [ConsolePrintCfg sample_new_cfg, CopyTemplateFiles [''demo''] ''Default'']\<rparr>"
proof -
  have "project sample_project_env (sample_answers True) False (Some [''demo'']) empty_world =
      copy_and_update sample_project_env [''demo''] ''Default'' sample_new_cfg [''demo'', ''manim.cfg'']
      \<lparr>files = [[''demo''] \<mapsto> Dir], trace = [ConsolePrintCfg sample_new_cfg]\<rparr>"
    by (simp add: project_def Let_def is_dir_def lookup_def empty_world_def mkdir_def
        check_parent_def sample_answers_def build_sample[unfolded sample_answers_def])
  then show ?thesis by (simp only: copy_and_update_sample) simp
qed

lemma project_default_sample:
  "project sample_project_env (sample_answers True) True (Some [''demo'']) empty_world =
   Done \<lparr>files =
        [[''demo''] \<mapsto> Dir, [''demo'', ''main.py''] \<mapsto> File Malformed,
         [''demo'', ''manim.cfg''] \<mapsto> File (Parsed
            [''CLI'' \<mapsto>
              [''frame_rate'' \<mapsto> ''30'', ''background_color'' \<mapsto> ''BLACK'',
               ''background_opacity'' \<mapsto> ''1'', ''scene_names'' \<mapsto> ''Default'',
               ''pixel_width'' \<mapsto> ''854'', ''pixel_height'' \<mapsto> ''480'']])],
      trace = [CopyTemplateFiles [''demo''] ''Default'']\<rparr>"
  apply (simp add: project_def Let_def is_dir_def lookup_def empty_world_def mkdir_def check_parent_def)
  apply (simp add: copy_and_update_def invoke_def sample_project_env_def sample_copy_def)
  apply (simp add: update_cfg_def read_config_def lookup_def sample_cfg_text_def)
  apply (simp add: CFG_DEFAULTS_def setitem_def optionxform_def lower_char_def sample_answers_def
      str_int_def digits_lt10 digits_ge10 write_file_def open_for_writing_def lookup_def)
  done

section \<open>Claims about the project command\<close>

text \<open>
  Claim C7. The claim is that creating a project whose directory already exists fails
  with an already-exists error and leaves the directory as it is. The second half
  holds, the first does not: the guard at line 119 prints a message and the command
  returns normally. On the sample project a first call creates the directory and a
  second call with the same name raises nothing.
\<close>

theorem project_second_call_does_not_fail:
  "raised (project sample_project_env (sample_answers True) True (Some [''demo'']) empty_world) = None \<and>
   is_dir (files (world_of
      (project sample_project_env (sample_answers True) True (Some [''demo'']) empty_world))) [''demo''] \<and>
   raised (project sample_project_env (sample_answers True) True (Some [''demo''])
      (world_of (project sample_project_env (sample_answers True) True (Some [''demo'']) empty_world)))
     = None"
  by (simp only: project_default_sample) (simp add: project_def Let_def is_dir_def lookup_def)

text \<open>
  Claim C7, as amended. When the project name (the argument, or the answer to the prompt)
  is an existing directory, the command ends normally: the file system is the one it
  started in (no merge, no overwrite, no configuration written, no template copied) and
  the trace gains the printed message and nothing else.
\<close>

theorem project_existing_directory_reported:
  assumes "is_dir (files w) (case project_name_arg of Some p \<Rightarrow> p | None \<Rightarrow> project_name_answer a)"
  shows "project env a default_settings project_name_arg w =
           Done (w\<lparr>trace := trace w @
                  [ConsolePrint (folder_exists_message
                     (case project_name_arg of Some p \<Rightarrow> p | None \<Rightarrow> project_name_answer a))]\<rparr>)"
  using assms by (simp add: project_def Let_def)

theorem project_existing_directory_reported_witness:
  "project sample_project_env (sample_answers True) True (Some [''demo''])
      (world_of (project sample_project_env (sample_answers True) True (Some [''demo'']) empty_world)) =
   Done \<lparr>files =
        [[''demo''] \<mapsto> Dir, [''demo'', ''main.py''] \<mapsto> File Malformed,
         [''demo'', ''manim.cfg''] \<mapsto> File (Parsed
            [''CLI'' \<mapsto>
              [''frame_rate'' \<mapsto> ''30'', ''background_color'' \<mapsto> ''BLACK'',
               ''background_opacity'' \<mapsto> ''1'', ''scene_names'' \<mapsto> ''Default'',
               ''pixel_width'' \<mapsto> ''854'', ''pixel_height'' \<mapsto> ''480'']])],
      trace = [CopyTemplateFiles [''demo''] ''Default'',
               ConsolePrint (folder_exists_message [''demo''])]\<rparr>"
proof -
  let ?w1 = "world_of (project sample_project_env (sample_answers True) True (Some [''demo'']) empty_world)"
  have d: "is_dir (files ?w1) (case Some [''demo''] of Some p \<Rightarrow> p
      | None \<Rightarrow> project_name_answer (sample_answers True))"
    by (simp only: project_default_sample) (simp add: is_dir_def lookup_def)
  from project_existing_directory_reported[OF d, of sample_project_env True]
  show ?thesis by (simp only: project_default_sample) simp
qed

text \<open>
  Claim C8. On the interactive path (the default flag not set), when the project
  directory can be created and the configuration is built: a user who declines the
  confirmation ends the command with \<^verbatim>\<open>click.Abort\<close> in a world that differs from
  the initial one by the new directory and the printed configuration only, so nothing
  is copied, no configuration is written and the directory stays; a user who confirms
  continues from that same world with the template copy and the configuration write.
  The confirmation thus comes after the directory creation and before any other change.
\<close>

theorem project_confirmation_before_copy:
  assumes "\<not> default_settings"
    and "project_name = (case project_name_arg of Some p \<Rightarrow> p | None \<Rightarrow> project_name_answer a)"
    and "lookup (files w) project_name = None"
    and "is_dir (files w) (butlast project_name)"
    and "build_cfg env a (template_answer a) CFG_DEFAULTS [] = Inr new_cfg"
  shows
    "(\<not> confirm_answer a \<longrightarrow>
        project env a default_settings project_name_arg w =
          Raised Abort (w\<lparr>files := (files w)(project_name \<mapsto> Dir),
                          trace := trace w @ [ConsolePrintCfg new_cfg]\<rparr>)) \<and>
     (confirm_answer a \<longrightarrow>
        project env a default_settings project_name_arg w =
          copy_and_update env project_name (template_answer a) new_cfg
            (project_name @ [''manim.cfg''])
            (w\<lparr>files := (files w)(project_name \<mapsto> Dir),
               trace := trace w @ [ConsolePrintCfg new_cfg]\<rparr>))"
proof -
  from assms(3) have nd: "\<not> is_dir (files w) project_name" by (simp add: is_dir_lookup)
  from nd assms(1,5) mkdir_absent[OF assms(3,4)] show ?thesis
    unfolding project_def Let_def assms(2)[symmetric] by simp
qed

theorem project_confirmation_before_copy_witness:
  "project sample_project_env (sample_answers False) False (Some [''demo'']) empty_world =
     Raised Abort \<lparr>files = [[''demo''] \<mapsto> Dir], trace = [ConsolePrintCfg sample_new_cfg]\<rparr> \<and>
   project sample_project_env (sample_answers True) False (Some [''demo'']) empty_world =
     copy_and_update sample_project_env [''demo''] ''Default'' sample_new_cfg [''demo'', ''manim.cfg'']
       \<lparr>files = [[''demo''] \<mapsto> Dir], trace = [ConsolePrintCfg sample_new_cfg]\<rparr>"
proof -
  have l: "lookup (files (empty_world :: cfgfile world)) [''demo''] = None"
    and d: "is_dir (files (empty_world :: cfgfile world)) (butlast [''demo''])"
    by (simp_all add: lookup_def is_dir_def empty_world_def)
  have t: "template_answer (sample_answers yes) = ''Default''" for yes
    by (simp add: sample_answers_def)
  have b: "build_cfg sample_project_env (sample_answers yes) (template_answer (sample_answers yes))
      CFG_DEFAULTS [] = Inr sample_new_cfg" for yes
    by (simp only: t build_sample)
  have n: "\<not> False" by simp
  have p: "[''demo''] = (case Some [''demo''] of Some p \<Rightarrow> p
      | None \<Rightarrow> project_name_answer (sample_answers yes))" for yes
    by simp
  from project_confirmation_before_copy[OF n p l d b, of False]
  have 1: "project sample_project_env (sample_answers False) False (Some [''demo'']) empty_world =
     Raised Abort \<lparr>files = [[''demo''] \<mapsto> Dir], trace = [ConsolePrintCfg sample_new_cfg]\<rparr>"
    by (simp add: sample_answers_def empty_world_def)
  from project_confirmation_before_copy[OF n p l d b, of True]
  have 2: "project sample_project_env (sample_answers True) False (Some [''demo'']) empty_world =
     copy_and_update sample_project_env [''demo''] ''Default'' sample_new_cfg [''demo'', ''manim.cfg'']
       \<lparr>files = [[''demo''] \<mapsto> Dir], trace = [ConsolePrintCfg sample_new_cfg]\<rparr>"
    by (simp add: sample_answers_def empty_world_def)
  from 1 2 show ?thesis by (intro conjI)
qed

text \<open>
  Claim C1. The claim is that on the interactive path the persisted section ends with
  \<^verbatim>\<open>pixel_width\<close> the width and \<^verbatim>\<open>pixel_height\<close> the height of the selected
  tier. \<open>select_resolution\<close> returns the pair (height, width), as its docstring says,
  while \<open>update_cfg\<close> writes the first component as \<^verbatim>\<open>pixel_width\<close> and the second as
  \<^verbatim>\<open>pixel_height\<close>, which fits the (width, height) pair of \<open>CFG_DEFAULTS\<close>. For the
  tier 480 high and 854 wide the interactive path persists a width of 480 and a height
  of 854.
\<close>

theorem project_interactive_swaps_resolution:
  "select_resolution sample_qualities ''480p'' = Inr (480, 854) \<and>
   stored_option
     (world_of (project sample_project_env (sample_answers True) False (Some [''demo'']) empty_world))
     [''demo'', ''manim.cfg''] ''CLI'' ''pixel_width'' = Some ''480'' \<and>
   stored_option
     (world_of (project sample_project_env (sample_answers True) False (Some [''demo'']) empty_world))
     [''demo'', ''manim.cfg''] ''CLI'' ''pixel_height'' = Some ''854''"
  by (simp only: project_interactive_sample select_sample) (simp add: stored_option_def)

end
